theory Spec2Isabelle
  imports Complex_Main
begin

section \<open>Common vocabulary\<close>

text \<open>
  Python exceptions that the two modules can raise, and the way a call ends: it returns a
  value or an exception leaves it. A method that mutates \<open>self\<close> and then raises has
  already changed the object, so every method below yields the object after the call
  together with its outcome.
\<close>

datatype error = NameError | ValueError | IndexError | TypeError

datatype 'a outcome = Returned 'a | Raised error

section \<open>curriculum.py\<close>

text \<open>
  The class \<open>Curriculum\<close>. Lengths are Python integers, losses are Python floats, read here
  as real numbers; \<open>current_loss\<close> starts as \<open>np.inf\<close>, written \<open>None\<close>, and is
  never read.
\<close>

record Curriculum =
  good_loss :: real
  min_frames :: int
  max_frames :: int
  current_loss :: "real option"
  cur_seqlen :: int

definition Curriculum_init :: "real \<Rightarrow> int \<Rightarrow> int \<Rightarrow> Curriculum" where
  "Curriculum_init gl mn mx =
     \<lparr>good_loss = gl, min_frames = mn, max_frames = mx, current_loss = None,
      cur_seqlen = mn\<rparr>"

text \<open>
  \<open>np.random.randint(low, high)\<close> draws from the half-open range \<open>[low, high)\<close> and raises
  \<open>ValueError\<close> when the range is empty. The generator's state is the argument \<open>seed\<close>:
  every value of the range is the draw of some seed.
\<close>

definition randint :: "int \<Rightarrow> int \<Rightarrow> nat \<Rightarrow> error + int" where
  "randint low high seed =
     (if low \<ge> high then Inl ValueError
      else Inr (low + int seed mod (high - low)))"

text \<open>
  The top level of the module binds \<open>np\<close> and \<open>Curriculum\<close> only, so no integer is bound
  to a global name; a bare name that is not a local of the function is looked up here.
\<close>

definition module_globals :: "string \<rightharpoonup> int" where
  "module_globals = Map.empty"

text \<open>\<open>Curriculum.step\<close>, lines 28 to 33.\<close>

definition step :: "Curriculum \<Rightarrow> real \<Rightarrow> nat \<Rightarrow> Curriculum \<times> unit outcome" where
  "step self cur_loss seed =
     (if cur_loss \<le> good_loss self then
        (case randint (cur_seqlen self) \<lceil>real_of_int (cur_seqlen self) * 1.5\<rceil> seed of
           Inl e \<Rightarrow> (self, Raised e)
         | Inr r \<Rightarrow>
             (let self1 = self\<lparr>cur_seqlen := cur_seqlen self + r\<rparr> in
              case module_globals ''max_frames'' of
                None \<Rightarrow> (self1, Raised NameError)
              | Some mf \<Rightarrow>
                  if cur_seqlen self1 > mf
                  then (self1\<lparr>cur_seqlen := mf\<rparr>, Returned ())
                  else (self1, Returned ())))
      else (self, Returned ()))"

section \<open>Trainer.py\<close>

subsection \<open>Data and external collaborators\<close>

text \<open>
  One item of a dataset, the 7-tuple that \<open>train_set[i]\<close> and \<open>val_set[i]\<close> unpack.
  Tensors are lists of reals; 32-bit floating point is read as exact real arithmetic
  throughout.
\<close>

record 'x sample =
  inp :: 'x
  rot_gt :: "real list"
  trans_gt :: "real list"
  seq :: nat
  frame1 :: nat
  frame2 :: nat
  endOfSeq :: bool

text \<open>The command-line arguments that \<open>Trainer\<close> reads from \<open>self.args\<close>.\<close>

record Args =
  nepochs :: int
  debug :: bool
  debugIters :: int
  trainBatch :: int
  gradClip :: "real option"
  expDir :: string

text \<open>
  The network is external. What the trainer sees of it is what it answers: the pair of
  predictions of the \<open>i\<close>-th \<open>forward\<close> call of an epoch, and the values \<open>W.norm(2)\<close> of
  its parameters when they are read in iteration \<open>i\<close>. Every other call on the model or
  the optimizer is recorded as it is made.
\<close>

record 'x Model =
  forward :: "nat \<Rightarrow> 'x \<Rightarrow> real list \<times> real list"
  parameters_norm :: "nat \<Rightarrow> real list"

datatype call =
    ModelTrain
  | ModelEval
  | ZeroGrad
  | Forward
  | Write_RotTrans real real
  | Write_Total real
  | Backward real
  | ClipGradNorm real
  | OptimizerStep
  | DetachHidden
  | ResetHidden
  | SaveTxt nat int "real list list"

text \<open>
  A call is made before the loop of a method (\<open>Pre\<close>) or in iteration \<open>i\<close> of it
  (\<open>At i\<close>). \<open>Backward l\<close> is \<open>self.loss.backward()\<close> with \<open>l\<close> the value of \<open>self.loss\<close>;
  \<open>SaveTxt s e rows\<close> is \<open>np.savetxt\<close> of \<open>rows\<close> to the file of sequence \<open>s\<close> and
  epoch \<open>e\<close>.
\<close>

datatype event = Pre call | At nat call

text \<open>Indexing a dataset held as a list; the loops only use indices from \<open>range\<close>.\<close>

definition getitem :: "'a list \<Rightarrow> nat \<Rightarrow> error + 'a" where
  "getitem xs i = (if i < length xs then Inr (xs ! i) else Inl IndexError)"

text \<open>\<open>nn.MSELoss(reduction = 'sum')\<close> on two tensors of the same shape.\<close>

definition MSELoss_sum :: "real list \<Rightarrow> real list \<Rightarrow> real" where
  "MSELoss_sum input target = sum_list (map (\<lambda>(a, b). (a - b)\<^sup>2) (zip input target))"

text \<open>\<open>np.mean\<close> of a list of scalars.\<close>

definition mean :: "real list \<Rightarrow> real" where
  "mean xs = sum_list xs / real (length xs)"

subsection \<open>The class \<open>Trainer\<close>\<close>

record ('x, 'h) Trainer =
  args :: Args
  maxEpochs :: int
  curEpoch :: int
  model :: "'x Model"
  train_set :: "'x sample list"
  val_set :: "'x sample list"
  loss_fn :: "real list \<Rightarrow> real list \<Rightarrow> real"
  loss_rot :: real
  loss_trans :: real
  loss :: real
  optimizer :: 'h
  scheduler :: "'h option"
  scaleFactor :: real
  weightRegularizer :: "real option"
  iters :: nat

text \<open>
  \<open>Trainer.__init__\<close>, lines 18 to 61. The parameters \<open>loss_fn\<close> and \<open>gradClip\<close> are
  received and not stored. The constructor has no \<open>raise\<close>; it returns the object and the
  one call it makes, \<open>self.model.zero_grad()\<close>.
\<close>

definition Trainer_init ::
  "Args \<Rightarrow> int \<Rightarrow> 'x Model \<Rightarrow> 'x sample list \<Rightarrow> 'x sample list \<Rightarrow>
   (real list \<Rightarrow> real list \<Rightarrow> real) \<Rightarrow> 'h \<Rightarrow> 'h option \<Rightarrow> real \<Rightarrow> real option \<Rightarrow>
   real option \<Rightarrow> ('x, 'h) Trainer \<times> event list" where
  "Trainer_init args0 epoch model0 train_set0 val_set0 loss_fn0 optimizer0 scheduler0
     scaleFactor0 gradClip0 weightRegularizer0 =
     (\<lparr>args = args0, maxEpochs = nepochs args0, curEpoch = epoch, model = model0,
       train_set = train_set0, val_set = val_set0, loss_fn = MSELoss_sum,
       loss_rot = 0, loss_trans = 0, loss = 0, optimizer = optimizer0,
       scheduler = scheduler0, scaleFactor = scaleFactor0,
       weightRegularizer = weightRegularizer0, iters = 0\<rparr>,
      [Pre ZeroGrad])"

text \<open>
  The object and the local variables of \<open>train\<close> and \<open>validate\<close> while their loop runs,
  with the calls made so far. \<open>elapsedBatches\<close> is a local of \<open>train\<close> only,
  \<open>traj_pred\<close> of \<open>validate\<close> only.
\<close>

record ('x, 'h) frame =
  self :: "('x, 'h) Trainer"
  rotLosses :: "real list"
  transLosses :: "real list"
  totalLosses :: "real list"
  rotLoss_seq :: "real list"
  transLoss_seq :: "real list"
  totalLoss_seq :: "real list"
  elapsedBatches :: int
  traj_pred :: "real list list option"
  calls :: "event list"

definition new_frame :: "('x, 'h) Trainer \<Rightarrow> event list \<Rightarrow> ('x, 'h) frame" where
  "new_frame T cs =
     \<lparr>self = T, rotLosses = [], transLosses = [], totalLosses = [], rotLoss_seq = [],
      transLoss_seq = [], totalLoss_seq = [], elapsedBatches = 0, traj_pred = None,
      calls = cs\<rparr>"

subsection \<open>\<open>Trainer.train\<close>\<close>

text \<open>Lines 104 to 120: the forward pass, the three running sums, the six logs.\<close>

definition train_accumulate :: "nat \<Rightarrow> 'x sample \<Rightarrow> ('x, 'h) frame \<Rightarrow> ('x, 'h) frame" where
  "train_accumulate i s st =
     (let T = self st;
          (rot_pred, trans_pred) = forward (model T) i (inp s);
          curloss_rot = scaleFactor T * loss_fn T rot_pred (rot_gt s);
          curloss_trans = loss_fn T trans_pred (trans_gt s)
      in st\<lparr>self := T\<lparr>loss_rot := loss_rot T + curloss_rot,
                       loss_trans := loss_trans T + curloss_trans,
                       loss := loss T + (0 + curloss_rot + curloss_trans)\<rparr>,
            rotLosses := rotLosses st @ [curloss_rot],
            transLosses := transLosses st @ [curloss_trans],
            totalLosses := totalLosses st @ [curloss_rot + curloss_trans],
            rotLoss_seq := rotLoss_seq st @ [curloss_rot],
            transLoss_seq := transLoss_seq st @ [curloss_trans],
            totalLoss_seq := totalLoss_seq st @ [curloss_rot + curloss_trans],
            calls := calls st @ [At i Forward]\<rparr>)"

text \<open>
  Lines 137 to 142: \<open>l2_reg\<close> starts as \<open>None\<close> and collects the norms; it is still
  \<open>None\<close> when the model has no parameter.
\<close>

definition l2_reg :: "real list \<Rightarrow> real option" where
  "l2_reg norms =
     foldl (\<lambda>acc w. case acc of None \<Rightarrow> Some w | Some a \<Rightarrow> Some (a + w)) None norms"

text \<open>
  Lines 135 to 143: the loss that is backpropagated. The product of the regularizer with
  \<open>None\<close> raises \<open>TypeError\<close>.
\<close>

definition regularized_loss :: "('x, 'h) Trainer \<Rightarrow> nat \<Rightarrow> error + real" where
  "regularized_loss T i =
     (case weightRegularizer T of
        None \<Rightarrow> Inr (loss T)
      | Some wr \<Rightarrow>
          (case l2_reg (parameters_norm (model T) i) of
             None \<Rightarrow> Inl TypeError
           | Some l2 \<Rightarrow> Inr (0 + wr * l2 + loss T)))"

text \<open>Lines 133 to 176: the body of the \<open>if\<close> that closes a window.\<close>

definition train_close :: "nat \<Rightarrow> bool \<Rightarrow> ('x, 'h) frame \<Rightarrow> ('x, 'h) frame \<times> error option" where
  "train_close i eos st =
     (let st1 = st\<lparr>elapsedBatches := 0\<rparr>;
          T = self st1
      in case regularized_loss T i of
           Inl e \<Rightarrow> (st1, Some e)
         | Inr l \<Rightarrow>
             (let T1 = T\<lparr>loss := l\<rparr>;
                  written = [At i (Write_RotTrans (mean (rotLoss_seq st1)) (mean (transLoss_seq st1))),
                             At i (Write_Total (mean (totalLoss_seq st1)))];
                  backward = [At i (Backward (loss T1))];
                  clipped = (case gradClip (args T1) of
                               None \<Rightarrow> [] | Some c \<Rightarrow> [At i (ClipGradNorm c)]);
                  stepped = [At i OptimizerStep, At i DetachHidden];
                  T2 = T1\<lparr>loss_rot := 0, loss_trans := 0, loss := 0\<rparr>;
                  flushed = [At i ZeroGrad];
                  reset = (if eos then [At i ResetHidden] else [])
              in (st1\<lparr>self := T2, rotLoss_seq := [], transLoss_seq := [],
                      totalLoss_seq := [],
                      calls := calls st1 @ written @ backward @ clipped @ stepped @ flushed
                                 @ reset\<rparr>,
                  None)))"

text \<open>
  Lines 100 to 176: one iteration of the loop, for index \<open>i\<close> of \<open>numTrainIters\<close>. The
  result carries the exception that ended the iteration, if one did.
\<close>

definition train_body :: "int \<Rightarrow> nat \<Rightarrow> ('x, 'h) frame \<Rightarrow> ('x, 'h) frame \<times> error option" where
  "train_body numTrainIters i st =
     (case getitem (train_set (self st)) i of
        Inl e \<Rightarrow> (st, Some e)
      | Inr s \<Rightarrow>
          (let st1 = train_accumulate i s st;
               eos = (if debug (args (self st1)) \<and> int i = numTrainIters - 1 then True
                      else endOfSeq s);
               st2 = st1\<lparr>elapsedBatches := elapsedBatches st1 + 1\<rparr>
           in if elapsedBatches st2 \<ge> trainBatch (args (self st2)) \<or> eos
              then train_close i eos st2
              else (st2, None)))"

text \<open>The \<open>for\<close> loop of line 98 over a list of indices; an exception ends it.\<close>

primrec train_iters ::
  "int \<Rightarrow> nat list \<Rightarrow> ('x, 'h) frame \<Rightarrow> ('x, 'h) frame \<times> error option" where
  "train_iters numTrainIters [] st = (st, None)"
| "train_iters numTrainIters (i # is) st =
     (case train_body numTrainIters i st of
        (st', Some e) \<Rightarrow> (st', Some e)
      | (st', None) \<Rightarrow> train_iters numTrainIters is st')"

text \<open>Lines 86 to 90.\<close>

definition numTrainIters_of :: "('x, 'h) Trainer \<Rightarrow> int" where
  "numTrainIters_of T =
     (if debug (args T) then debugIters (args T) else int (length (train_set T)))"

text \<open>
  \<open>Trainer.train\<close>, lines 65 to 179: the object after the call, the calls made, and the
  outcome. The bare \<open>return\<close> of line 73 returns \<open>None\<close>; line 179 returns the three logs.
\<close>

definition train ::
  "('x, 'h) Trainer \<Rightarrow>
   ('x, 'h) Trainer \<times> event list \<times> (real list \<times> real list \<times> real list) option outcome" where
  "train T =
     (if curEpoch T \<ge> maxEpochs T then (T, [Pre ModelTrain], Returned None)
      else
        (let T1 = T\<lparr>iters := iters T + 1\<rparr>;
             n = numTrainIters_of T1
         in case train_iters n [0..<nat n] (new_frame T1 [Pre ModelTrain]) of
              (st, Some e) \<Rightarrow> (self st, calls st, Raised e)
            | (st, None) \<Rightarrow>
                (self st, calls st,
                 Returned (Some (rotLosses st, transLosses st, totalLosses st)))))"

subsection \<open>\<open>Trainer.validate\<close>\<close>

text \<open>Lines 208 to 237: the row of the trajectory, the running sums, the logs.\<close>

definition validate_accumulate ::
  "nat \<Rightarrow> 'x sample \<Rightarrow> ('x, 'h) frame \<Rightarrow> ('x, 'h) frame" where
  "validate_accumulate i s st =
     (let T = self st;
          metadata = [real (seq s), real (frame1 s), real (frame2 s)];
          (rot_pred, trans_pred) = forward (model T) i (inp s);
          cur_pred = metadata @ rot_pred @ trans_pred;
          traj = (case traj_pred st of None \<Rightarrow> [cur_pred] | Some rows \<Rightarrow> rows @ [cur_pred]);
          curloss_rot = scaleFactor T * loss_fn T rot_pred (rot_gt s);
          curloss_trans = loss_fn T trans_pred (trans_gt s)
      in st\<lparr>self := T\<lparr>loss_rot := loss_rot T + curloss_rot,
                       loss_trans := loss_trans T + curloss_trans,
                       loss := loss T + (0 + curloss_rot + curloss_trans)\<rparr>,
            rotLosses := rotLosses st @ [curloss_rot],
            transLosses := transLosses st @ [curloss_trans],
            totalLosses := totalLosses st @ [curloss_rot + curloss_trans],
            rotLoss_seq := rotLoss_seq st @ [curloss_rot],
            transLoss_seq := transLoss_seq st @ [curloss_trans],
            totalLoss_seq := totalLoss_seq st @ [curloss_rot + curloss_trans],
            traj_pred := Some traj,
            calls := calls st @ [At i Forward]\<rparr>)"

text \<open>Lines 241 to 263: the body of the \<open>if\<close> at the end of a sequence.\<close>

definition validate_flush :: "nat \<Rightarrow> 'x sample \<Rightarrow> ('x, 'h) frame \<Rightarrow> ('x, 'h) frame" where
  "validate_flush i s st =
     (let T = self st;
          written = [At i (Write_RotTrans (mean (rotLoss_seq st)) (mean (transLoss_seq st))),
                     At i (Write_Total (mean (totalLoss_seq st)))];
          saved = [At i (SaveTxt (seq s) (curEpoch T)
                          (case traj_pred st of None \<Rightarrow> [] | Some rows \<Rightarrow> rows))]
      in st\<lparr>self := T\<lparr>loss_rot := 0, loss_trans := 0, loss := 0\<rparr>,
            rotLoss_seq := [], transLoss_seq := [], totalLoss_seq := [],
            traj_pred := None,
            calls := calls st @ written @ saved @ [At i DetachHidden]\<rparr>)"

text \<open>Lines 207 to 263: one iteration of the loop of \<open>validate\<close>.\<close>

definition validate_body :: "nat \<Rightarrow> ('x, 'h) frame \<Rightarrow> ('x, 'h) frame \<times> error option" where
  "validate_body i st =
     (case getitem (val_set (self st)) i of
        Inl e \<Rightarrow> (st, Some e)
      | Inr s \<Rightarrow>
          (let st1 = validate_accumulate i s st
           in if endOfSeq s then (validate_flush i s st1, None) else (st1, None)))"

primrec validate_iters ::
  "nat list \<Rightarrow> ('x, 'h) frame \<Rightarrow> ('x, 'h) frame \<times> error option" where
  "validate_iters [] st = (st, None)"
| "validate_iters (i # is) st =
     (case validate_body i st of
        (st', Some e) \<Rightarrow> (st', Some e)
      | (st', None) \<Rightarrow> validate_iters is st')"

text \<open>Lines 199 to 203.\<close>

definition numValIters_of :: "('x, 'h) Trainer \<Rightarrow> int" where
  "numValIters_of T =
     (if debug (args T) then debugIters (args T) else int (length (val_set T)))"

text \<open>\<open>Trainer.validate\<close>, lines 183 to 266.\<close>

definition validate ::
  "('x, 'h) Trainer \<Rightarrow>
   ('x, 'h) Trainer \<times> event list \<times> (real list \<times> real list \<times> real list) outcome" where
  "validate T =
     (case validate_iters [0..<nat (numValIters_of T)] (new_frame T [Pre ModelEval]) of
        (st, Some e) \<Rightarrow> (self st, calls st, Raised e)
      | (st, None) \<Rightarrow>
          (self st, calls st, Returned (rotLosses st, transLosses st, totalLosses st)))"

section \<open>Vocabulary of the claims about the loops\<close>

text \<open>
  The iterations in which a given call was made, in the order of the calls.
\<close>

fun iterations_of :: "call \<Rightarrow> event list \<Rightarrow> nat list" where
  "iterations_of c [] = []"
| "iterations_of c (Pre d # es) = iterations_of c es"
| "iterations_of c (At i d # es) =
     (if d = c then i # iterations_of c es else iterations_of c es)"

text \<open>
  The end-of-sequence flag that counts for sample \<open>i\<close> of a training epoch: the flag of
  the dataset, or the last iteration of a debug run.
\<close>

definition effective_eos :: "('x, 'h) Trainer \<Rightarrow> nat \<Rightarrow> bool" where
  "effective_eos T i =
     (endOfSeq (train_set T ! i) \<or> (debug (args T) \<and> int i = numTrainIters_of T - 1))"

text \<open>
  The windows as the specification words them, for a window size \<open>w\<close> and flags \<open>f\<close>:
  \<open>elapsed w f k\<close> is the elapsed-window-sample counter after \<open>k\<close> samples; it is
  incremented for each sample and a window closes with sample \<open>k\<close> when the incremented
  counter reaches \<open>w\<close> or the flag of the sample is true, which resets the counter.
\<close>

fun elapsed :: "int \<Rightarrow> (nat \<Rightarrow> bool) \<Rightarrow> nat \<Rightarrow> int" where
  "elapsed w f 0 = 0"
| "elapsed w f (Suc k) = (if elapsed w f k + 1 \<ge> w \<or> f k then 0 else elapsed w f k + 1)"

definition window_closes :: "int \<Rightarrow> (nat \<Rightarrow> bool) \<Rightarrow> nat \<Rightarrow> bool" where
  "window_closes w f k = (elapsed w f k + 1 \<ge> w \<or> f k)"

text \<open>
  The first sample of the window that is open once \<open>k\<close> samples are processed, for the
  closing samples \<open>cl\<close>; sample \<open>k\<close> belongs to the window \<open>[window_start cl k ..< Suc k]\<close>.
\<close>

fun window_start :: "(nat \<Rightarrow> bool) \<Rightarrow> nat \<Rightarrow> nat" where
  "window_start cl 0 = 0"
| "window_start cl (Suc k) = (if cl k then Suc k else window_start cl k)"

text \<open>
  The losses of sample \<open>i\<close> of a dataset: what \<open>loss_fn\<close> returns on the rotation and on
  the translation predicted in iteration \<open>i\<close>.
\<close>

definition sample_rot :: "('x, 'h) Trainer \<Rightarrow> 'x sample list \<Rightarrow> nat \<Rightarrow> real" where
  "sample_rot T ds i = loss_fn T (fst (forward (model T) i (inp (ds ! i)))) (rot_gt (ds ! i))"

definition sample_trans :: "('x, 'h) Trainer \<Rightarrow> 'x sample list \<Rightarrow> nat \<Rightarrow> real" where
  "sample_trans T ds i =
     loss_fn T (snd (forward (model T) i (inp (ds ! i)))) (trans_gt (ds ! i))"

text \<open>
  The value of a running sum once \<open>k\<close> samples are processed: the terms of the open
  window, on top of the value at entry as long as no window has closed.
\<close>

definition running_sum :: "(nat \<Rightarrow> bool) \<Rightarrow> real \<Rightarrow> (nat \<Rightarrow> real) \<Rightarrow> nat \<Rightarrow> real" where
  "running_sum cl entry v k =
     (if window_start cl k = 0 then entry else 0) + sum_list (map v [window_start cl k..<k])"

text \<open>
  Two program points of \<open>train\<close>: the frame when iteration \<open>k\<close> of the loop begins, and
  the frame of that iteration at line 131, when sample \<open>k\<close> is accumulated and the window
  test is about to be made.
\<close>

definition train_frame :: "('x, 'h) Trainer \<Rightarrow> nat \<Rightarrow> ('x, 'h) frame" where
  "train_frame T k =
     fst (train_iters (numTrainIters_of T) [0..<k]
            (new_frame (T\<lparr>iters := iters T + 1\<rparr>) [Pre ModelTrain]))"

definition train_at_test :: "('x, 'h) Trainer \<Rightarrow> nat \<Rightarrow> ('x, 'h) frame" where
  "train_at_test T k = train_accumulate k (train_set T ! k) (train_frame T k)"

section \<open>Auxiliary notions for the proofs\<close>

text \<open>
  The window test of line 131 for iteration \<open>i\<close>, read on the frame at the start of the
  iteration.
\<close>

definition closing :: "int \<Rightarrow> nat \<Rightarrow> ('x, 'h) frame \<Rightarrow> bool" where
  "closing n i st =
     (elapsedBatches st + 1 \<ge> trainBatch (args (self st)) \<or>
      endOfSeq (train_set (self st) ! i) \<or> (debug (args (self st)) \<and> int i = n - 1))"

text \<open>Two trainers that differ in the three running sums at most.\<close>

definition same_config :: "('x, 'h) Trainer \<Rightarrow> ('x, 'h) Trainer \<Rightarrow> bool" where
  "same_config T T' =
     (T' = T\<lparr>loss_rot := loss_rot T', loss_trans := loss_trans T', loss := loss T'\<rparr>)"

text \<open>The exception, if any, that ended one of the first \<open>k\<close> iterations of \<open>train\<close>.\<close>

definition train_error :: "('x, 'h) Trainer \<Rightarrow> nat \<Rightarrow> error option" where
  "train_error T k =
     snd (train_iters (numTrainIters_of T) [0..<k]
            (new_frame (T\<lparr>iters := iters T + 1\<rparr>) [Pre ModelTrain]))"



text \<open>The call of an event, and the calls that compute or apply a gradient.\<close>

fun call_of :: "event \<Rightarrow> call" where
  "call_of (Pre c) = c"
| "call_of (At i c) = c"




text \<open>A trainer and a frame with the three running sums put to zero.\<close>

definition zero_sums :: "('x, 'h) Trainer \<Rightarrow> ('x, 'h) Trainer" where
  "zero_sums T = T\<lparr>loss_rot := 0, loss_trans := 0, loss := 0\<rparr>"


text \<open>
  What a method reports: its \<open>tqdm.write\<close> calls, in order. \<open>window_report T k\<close> is the
  report of a window of \<open>train\<close> closed by sample \<open>k\<close> when its figures are the means,
  over the samples of the window, of the scaled rotation loss, of the translation loss and
  of their sum.
\<close>

fun is_Write :: "call \<Rightarrow> bool" where
  "is_Write (Write_RotTrans r t) = True"
| "is_Write (Write_Total l) = True"
| "is_Write c = False"

definition reports :: "event list \<Rightarrow> event list" where
  "reports es = filter (\<lambda>e. is_Write (call_of e)) es"


section \<open>A small trainer to run\<close>

text \<open>
  A model that predicts rotation \<open>[1]\<close> and translation \<open>[2]\<close> for every input, on samples
  whose ground truth is \<open>[0]\<close> and \<open>[0]\<close>: each sample has rotation loss 1 and translation
  loss 4. The trainer is built by the constructor with scale factor 2, a training set of
  five samples of which the last ends its sequence, and a validation set of two samples
  that end no sequence.
\<close>

definition demo_sample :: "bool \<Rightarrow> unit sample" where
  "demo_sample e =
     \<lparr>inp = (), rot_gt = [0], trans_gt = [0], seq = 0, frame1 = 0, frame2 = 1,
      endOfSeq = e\<rparr>"

definition demo_model :: "unit Model" where
  "demo_model = \<lparr>forward = (\<lambda>i x. ([1], [2])), parameters_norm = (\<lambda>i. [1, 2])\<rparr>"

definition demo_args :: "int \<Rightarrow> Args" where
  "demo_args w =
     \<lparr>nepochs = 10, debug = False, debugIters = 3, trainBatch = w, gradClip = None,
      expDir = ''exp''\<rparr>"

definition demo_trainer :: "int \<Rightarrow> int \<Rightarrow> (unit, unit) Trainer" where
  "demo_trainer w epoch =
     fst (Trainer_init (demo_args w) epoch demo_model
            (map demo_sample [False, False, False, False, True])
            (map demo_sample [False, False]) MSELoss_sum () None 2 None None)"


section \<open>Properties of \<open>Curriculum.step\<close>\<close>

lemma ceil_three_halves: "\<lceil>real_of_int x * 1.5\<rceil> = (3 * x + 1) div 2"
proof -
  have "real_of_int x * 1.5 = real_of_int (3 * x) / real_of_int 2" by simp
  then have "\<lceil>real_of_int x * 1.5\<rceil> = - (- (3 * x) div 2)"
    by (simp only: ceiling_divide_eq_div)
  also have "\<dots> = (3 * x + 1) div 2" by presburger
  finally show ?thesis .
qed

lemma randint_range:
  assumes "low < high"
  shows "\<exists>r. randint low high seed = Inr r \<and> low \<le> r \<and> r < high"
proof -
  have "0 \<le> int seed mod (high - low)" "int seed mod (high - low) < high - low"
    using assms by simp_all
  then have "low \<le> low + int seed mod (high - low)" "low + int seed mod (high - low) < high"
    by linarith+
  then show ?thesis using assms by (simp add: randint_def)
qed

text \<open>
  C1, as the code has it. When \<open>cur_loss \<le> good_loss\<close> and the current length is at least
  1, line 31 adds to \<open>cur_seqlen\<close> a draw from \<open>[cur_seqlen, ceil(cur_seqlen * 1.5))\<close>: the
  grown length is at least twice the old one and below the old one plus
  \<open>ceil(old * 1.5)\<close>. When \<open>cur_loss > good_loss\<close> the call returns and changes nothing.
\<close>

theorem step_growth:
  "(cur_loss \<le> good_loss c \<and> 1 \<le> cur_seqlen c \<longrightarrow>
      2 * cur_seqlen c \<le> cur_seqlen (fst (step c cur_loss seed)) \<and>
      cur_seqlen (fst (step c cur_loss seed))
        < cur_seqlen c + \<lceil>real_of_int (cur_seqlen c) * 1.5\<rceil>) \<and>
   (cur_loss > good_loss c \<longrightarrow> step c cur_loss seed = (c, Returned ()))"
proof (intro conjI impI)
  assume h: "cur_loss \<le> good_loss c \<and> 1 \<le> cur_seqlen c"
  let ?hi = "\<lceil>real_of_int (cur_seqlen c) * 1.5\<rceil>"
  have pos: "1 \<le> cur_seqlen c" using h by simp
  have "cur_seqlen c < (3 * cur_seqlen c + 1) div 2" using pos by presburger
  then have lt: "cur_seqlen c < ?hi" by (simp only: ceil_three_halves)
  obtain r where r: "randint (cur_seqlen c) ?hi seed = Inr r" "cur_seqlen c \<le> r" "r < ?hi"
    using randint_range [OF lt] by blast
  have eq: "cur_seqlen (fst (step c cur_loss seed)) = cur_seqlen c + r"
    using h r(1) by (simp add: step_def module_globals_def)
  show "2 * cur_seqlen c \<le> cur_seqlen (fst (step c cur_loss seed))" using eq r(2) by simp
  show "cur_seqlen (fst (step c cur_loss seed)) < cur_seqlen c + ?hi" using eq r(3) by simp
next
  assume "good_loss c < cur_loss"
  then show "step c cur_loss seed = (c, Returned ())" by (simp add: step_def)
qed

theorem step_growth_witness:
  "(0.005::real) \<le> good_loss (Curriculum_init 0.009 5 1095) \<and>
   1 \<le> cur_seqlen (Curriculum_init 0.009 5 1095) \<and>
   good_loss (Curriculum_init 0.009 5 1095) < 0.02 \<and>
   2 * 5 \<le> cur_seqlen (fst (step (Curriculum_init 0.009 5 1095) 0.005 2)) \<and>
   cur_seqlen (fst (step (Curriculum_init 0.009 5 1095) 0.005 2)) < 5 + 8 \<and>
   step (Curriculum_init 0.009 5 1095) 0.02 2 = (Curriculum_init 0.009 5 1095, Returned ())"
  using step_growth [of "0.005" "Curriculum_init 0.009 5 1095" 2]
    step_growth [of "0.02" "Curriculum_init 0.009 5 1095" 2]
  by (simp add: Curriculum_init_def ceil_three_halves)

text \<open>
  C1 as the specification states it fails: from length 5 with loss 0.005, the length after
  the call is 10, above \<open>min(1095, ceil(5 * 1.5)) = 8\<close>.
\<close>

theorem step_bound_counterexample:
  "\<not> (cur_seqlen (fst (step (Curriculum_init 0.009 5 1095) 0.005 0))
        \<le> min (max_frames (Curriculum_init 0.009 5 1095)) \<lceil>real_of_int 5 * 1.5\<rceil>)"
  by (simp add: step_def randint_def module_globals_def Curriculum_init_def ceil_three_halves)

text \<open>
  C2: with the default curriculum (\<open>good_loss = 0.009\<close>, \<open>min_frames = 5\<close>,
  \<open>max_frames = 1095\<close>), \<open>step(0.005)\<close> does not complete: whatever the draw, line 32 reads
  the unbound name \<open>max_frames\<close> and the call ends with \<open>NameError\<close>.
\<close>

theorem step_good_loss_raises:
  "snd (step (Curriculum_init 0.009 5 1095) 0.005 seed) = Raised NameError"
  by (simp add: step_def randint_def module_globals_def Curriculum_init_def ceil_three_halves)

section \<open>The loop of \<open>train\<close>, iteration by iteration\<close>

lemma iterations_of_append [simp]:
  "iterations_of c (es @ fs) = iterations_of c es @ iterations_of c fs"
  by (induction c es rule: iterations_of.induct) auto

lemma train_iters_snoc:
  "train_iters n (js @ [i]) st =
     (case train_iters n js st of
        (st', Some e) \<Rightarrow> (st', Some e)
      | (st', None) \<Rightarrow> train_body n i st')"
  by (induction js arbitrary: st) (auto split: prod.splits option.splits)

lemma same_config_refl: "same_config T T"
  by (simp add: same_config_def)

lemma same_config_fields:
  assumes "same_config T T'"
  shows "args T' = args T" "train_set T' = train_set T" "val_set T' = val_set T" "model T' = model T"
    "loss_fn T' = loss_fn T" "scaleFactor T' = scaleFactor T"
    "weightRegularizer T' = weightRegularizer T" "curEpoch T' = curEpoch T"
    "maxEpochs T' = maxEpochs T" "iters T' = iters T"
  by (subst assms [unfolded same_config_def], simp)+

lemma same_config_trans: "same_config T T' \<Longrightarrow> same_config T' T'' \<Longrightarrow> same_config T T''"
  unfolding same_config_def
  by (metis (no_types, lifting) Trainer.surjective Trainer.update_convs(8,9,10))

lemma train_body_ok:
  assumes "train_body n i st = (st', None)"
  shows "i < length (train_set (self st))"
  using assms by (auto simp: train_body_def getitem_def split: if_splits)

lemma train_body_config:
  assumes "train_body n i st = (st', None)"
  shows "same_config (self st) (self st')"
  using assms
  by (auto simp: train_body_def getitem_def train_accumulate_def train_close_def Let_def same_config_def
      split: if_splits prod.splits sum.splits)

lemma train_body_elapsed:
  assumes "train_body n i st = (st', None)"
  shows "elapsedBatches st' = (if closing n i st then 0 else elapsedBatches st + 1)"
  using assms
  by (auto simp: train_body_def getitem_def train_accumulate_def train_close_def Let_def closing_def
      split: if_splits prod.splits sum.splits)

lemma train_body_sums:
  assumes "train_body n i st = (st', None)"
  shows "loss_rot (self st') = (if closing n i st then 0
           else loss_rot (self st) + scaleFactor (self st) * sample_rot (self st) (train_set (self st)) i)"
    and "loss_trans (self st') = (if closing n i st then 0
           else loss_trans (self st) + sample_trans (self st) (train_set (self st)) i)"
    and "loss (self st') = (if closing n i st then 0
           else loss (self st) + (scaleFactor (self st) * sample_rot (self st) (train_set (self st)) i
                  + sample_trans (self st) (train_set (self st)) i))"
  using assms
  by (auto simp: train_body_def getitem_def train_accumulate_def train_close_def Let_def closing_def
      sample_rot_def sample_trans_def
      split: if_splits prod.splits sum.splits)

lemma train_body_logs:
  assumes "train_body n i st = (st', None)"
  shows "rotLosses st' = rotLosses st @ [scaleFactor (self st) * sample_rot (self st) (train_set (self st)) i]"
    and "transLosses st' = transLosses st @ [sample_trans (self st) (train_set (self st)) i]"
    and "totalLosses st' = totalLosses st @ [scaleFactor (self st) * sample_rot (self st) (train_set (self st)) i
                  + sample_trans (self st) (train_set (self st)) i]"
  using assms
  by (auto simp: train_body_def getitem_def train_accumulate_def train_close_def Let_def
      sample_rot_def sample_trans_def
      split: if_splits prod.splits sum.splits)

lemma train_body_calls:
  assumes "train_body n i st = (st', None)"
  shows "iterations_of OptimizerStep (calls st') =
           iterations_of OptimizerStep (calls st) @ (if closing n i st then [i] else [])"
    and "iterations_of DetachHidden (calls st') =
           iterations_of DetachHidden (calls st) @ (if closing n i st then [i] else [])"
    and "iterations_of ResetHidden (calls st') =
           iterations_of ResetHidden (calls st) @
             (if endOfSeq (train_set (self st) ! i) \<or> (debug (args (self st)) \<and> int i = n - 1)
              then [i] else [])"
    and "iterations_of Forward (calls st') = iterations_of Forward (calls st) @ [i]"
  using assms
  by (auto simp: train_body_def getitem_def train_accumulate_def train_close_def Let_def closing_def
      split: if_splits prod.splits sum.splits option.splits)

lemma numTrainIters_of_iters [simp]: "numTrainIters_of (T\<lparr>iters := x\<rparr>) = numTrainIters_of T"
  by (simp add: numTrainIters_of_def)

lemma train_prefix_step:
  assumes "train_error T (Suc k) = None"
  shows "train_error T k = None"
    and "train_body (numTrainIters_of T) k (train_frame T k) = (train_frame T (Suc k), None)"
proof -
  let ?r = "train_iters (numTrainIters_of T) [0..<k]
              (new_frame (T\<lparr>iters := iters T + 1\<rparr>) [Pre ModelTrain])"
  obtain st e where r: "?r = (st, e)" by (cases ?r)
  obtain st' e' where b: "train_body (numTrainIters_of T) k st = (st', e')"
    by (cases "train_body (numTrainIters_of T) k st")
  from assms r b have "e = None \<and> e' = None"
    by (auto simp: train_error_def train_iters_snoc split: option.splits)
  with r b show "train_error T k = None"
    and "train_body (numTrainIters_of T) k (train_frame T k) = (train_frame T (Suc k), None)"
    by (simp_all add: train_error_def train_frame_def train_iters_snoc)
qed

lemma train_prefix_le: "train_error T m = None \<Longrightarrow> k \<le> m \<Longrightarrow> train_error T k = None"
proof (induction m)
  case 0
  then show ?case by simp
next
  case (Suc m)
  then show ?case using train_prefix_step(1) [of T m] by (cases "k = Suc m") auto
qed

lemma train_frame_0: "train_frame T 0 = new_frame (T\<lparr>iters := iters T + 1\<rparr>) [Pre ModelTrain]"
  by (simp add: train_frame_def)

lemma train_frame_config:
  "train_error T k = None \<Longrightarrow> same_config (T\<lparr>iters := iters T + 1\<rparr>) (self (train_frame T k))"
proof (induction k)
  case 0
  show ?case by (simp add: train_frame_0 new_frame_def same_config_refl)
next
  case (Suc k)
  from train_prefix_step [OF Suc.prems] Suc.IH train_body_config
  show ?case by (blast intro: same_config_trans)
qed

lemma train_frame_fields:
  assumes "train_error T k = None"
  shows "args (self (train_frame T k)) = args T"
    and "train_set (self (train_frame T k)) = train_set T"
    and "scaleFactor (self (train_frame T k)) = scaleFactor T"
    and "weightRegularizer (self (train_frame T k)) = weightRegularizer T"
    and "model (self (train_frame T k)) = model T"
    and "loss_fn (self (train_frame T k)) = loss_fn T"
    and "iters (self (train_frame T k)) = iters T + 1"
    and "curEpoch (self (train_frame T k)) = curEpoch T"
    and "maxEpochs (self (train_frame T k)) = maxEpochs T"
    and "val_set (self (train_frame T k)) = val_set T"
  using same_config_fields [OF train_frame_config [OF assms]] by simp_all

lemma sample_rot_frame:
  assumes "train_error T k = None"
  shows "sample_rot (self (train_frame T k)) ds i = sample_rot T ds i"
    and "sample_trans (self (train_frame T k)) ds i = sample_trans T ds i"
  using train_frame_fields [OF assms] by (simp_all add: sample_rot_def sample_trans_def)

lemma train_frame_length:
  "train_error T k = None \<Longrightarrow> k \<le> length (train_set T)"
proof (cases k)
  case 0
  then show ?thesis by simp
next
  case (Suc j)
  assume ok: "train_error T k = None"
  from train_prefix_step [OF ok [unfolded Suc]]
  have "j < length (train_set (self (train_frame T j)))"
    using train_body_ok by blast
  then show ?thesis using train_frame_fields(2) [of T j] train_prefix_step(1) [OF ok [unfolded Suc]] Suc
    by simp
qed

lemma train_frame_elapsed:
  "train_error T k = None \<Longrightarrow>
   elapsedBatches (train_frame T k) = elapsed (trainBatch (args T)) (effective_eos T) k"
proof (induction k)
  case 0
  show ?case by (simp add: train_frame_0 new_frame_def)
next
  case (Suc k)
  note st = train_prefix_step [OF Suc.prems]
  have "closing (numTrainIters_of T) k (train_frame T k)
        = (elapsed (trainBatch (args T)) (effective_eos T) k + 1 \<ge> trainBatch (args T)
            \<or> effective_eos T k)"
    using Suc.IH [OF st(1)] train_frame_fields [OF st(1)] effective_eos_def [of T k]
    by (simp add: closing_def)
  then show ?case
    using train_body_elapsed [OF st(2)] Suc.IH [OF st(1)] by simp
qed

lemma train_frame_closing:
  assumes "train_error T k = None"
  shows "closing (numTrainIters_of T) k (train_frame T k)
         = window_closes (trainBatch (args T)) (effective_eos T) k"
  using train_frame_elapsed [OF assms] train_frame_fields [OF assms] effective_eos_def [of T k]
  by (simp add: closing_def window_closes_def)

lemma window_start_le: "window_start cl k \<le> k"
  by (induction k) auto

lemma running_sum_0: "running_sum cl e v 0 = e"
  by (simp add: running_sum_def)

lemma running_sum_Suc:
  "running_sum cl e v (Suc k) = (if cl k then 0 else running_sum cl e v k + v k)"
  using window_start_le [of cl k] by (simp add: running_sum_def)

lemma train_frame_sums:
  assumes "train_error T k = None"
  shows "loss_rot (self (train_frame T k)) =
           running_sum (window_closes (trainBatch (args T)) (effective_eos T)) (loss_rot T)
             (\<lambda>j. scaleFactor T * sample_rot T (train_set T) j) k"
    and "loss_trans (self (train_frame T k)) =
           running_sum (window_closes (trainBatch (args T)) (effective_eos T)) (loss_trans T)
             (\<lambda>j. sample_trans T (train_set T) j) k"
    and "loss (self (train_frame T k)) =
           running_sum (window_closes (trainBatch (args T)) (effective_eos T)) (loss T)
             (\<lambda>j. scaleFactor T * sample_rot T (train_set T) j + sample_trans T (train_set T) j) k"
  using assms
proof (induction k)
  case 0
  {
    case 1 show ?case by (simp add: train_frame_0 new_frame_def running_sum_0)
  next
    case 2 show ?case by (simp add: train_frame_0 new_frame_def running_sum_0)
  next
    case 3 show ?case by (simp add: train_frame_0 new_frame_def running_sum_0)
  }
next
  case (Suc k)
  {
    case 1
    note st = train_prefix_step [OF 1]
    show ?case
      using train_body_sums(1) [OF st(2)] Suc.IH(1) [OF st(1)] train_frame_closing [OF st(1)]
        train_frame_fields [OF st(1)] sample_rot_frame [OF st(1)]
      by (simp add: running_sum_Suc)
  next
    case 2
    note st = train_prefix_step [OF 2]
    show ?case
      using train_body_sums(2) [OF st(2)] Suc.IH(2) [OF st(1)] train_frame_closing [OF st(1)]
        train_frame_fields [OF st(1)] sample_rot_frame [OF st(1)]
      by (simp add: running_sum_Suc)
  next
    case 3
    note st = train_prefix_step [OF 3]
    show ?case
      using train_body_sums(3) [OF st(2)] Suc.IH(3) [OF st(1)] train_frame_closing [OF st(1)]
        train_frame_fields [OF st(1)] sample_rot_frame [OF st(1)]
      by (simp add: running_sum_Suc)
  }
qed

lemma train_frame_logs:
  assumes "train_error T k = None"
  shows "rotLosses (train_frame T k) = map (\<lambda>j. scaleFactor T * sample_rot T (train_set T) j) [0..<k]"
    and "transLosses (train_frame T k) = map (\<lambda>j. sample_trans T (train_set T) j) [0..<k]"
    and "totalLosses (train_frame T k) =
           map (\<lambda>j. scaleFactor T * sample_rot T (train_set T) j + sample_trans T (train_set T) j) [0..<k]"
  using assms
proof (induction k)
  case 0
  {
    case 1 show ?case by (simp add: train_frame_0 new_frame_def)
  next
    case 2 show ?case by (simp add: train_frame_0 new_frame_def)
  next
    case 3 show ?case by (simp add: train_frame_0 new_frame_def)
  }
next
  case (Suc k)
  {
    case 1
    note st = train_prefix_step [OF 1]
    show ?case
      using train_body_logs(1) [OF st(2)] Suc.IH(1) [OF st(1)]
        train_frame_fields [OF st(1)] sample_rot_frame [OF st(1)]
      by simp
  next
    case 2
    note st = train_prefix_step [OF 2]
    show ?case
      using train_body_logs(2) [OF st(2)] Suc.IH(2) [OF st(1)]
        train_frame_fields [OF st(1)] sample_rot_frame [OF st(1)]
      by simp
  next
    case 3
    note st = train_prefix_step [OF 3]
    show ?case
      using train_body_logs(3) [OF st(2)] Suc.IH(3) [OF st(1)]
        train_frame_fields [OF st(1)] sample_rot_frame [OF st(1)]
      by simp
  }
qed

lemma train_frame_steps:
  "train_error T k = None \<Longrightarrow>
   iterations_of OptimizerStep (calls (train_frame T k)) =
     filter (window_closes (trainBatch (args T)) (effective_eos T)) [0..<k]"
proof (induction k)
  case 0
  show ?case by (simp add: train_frame_0 new_frame_def)
next
  case (Suc k)
  note st = train_prefix_step [OF Suc.prems]
  show ?case
    using train_body_calls(1) [OF st(2)] Suc.IH [OF st(1)] train_frame_closing [OF st(1)]
    by simp
qed



lemma train_frame_forward:
  "train_error T k = None \<Longrightarrow> iterations_of Forward (calls (train_frame T k)) = [0..<k]"
proof (induction k)
  case 0
  show ?case by (simp add: train_frame_0 new_frame_def)
next
  case (Suc k)
  note st = train_prefix_step [OF Suc.prems]
  show ?case
    using train_body_calls(4) [OF st(2)] Suc.IH [OF st(1)] by simp
qed

lemma train_unfold:
  assumes "curEpoch T < maxEpochs T"
  shows "fst (train T) = self (train_frame T (nat (numTrainIters_of T)))"
    and "fst (snd (train T)) = calls (train_frame T (nat (numTrainIters_of T)))"
    and "snd (snd (train T)) =
           (case train_error T (nat (numTrainIters_of T)) of
              Some e \<Rightarrow> Raised e
            | None \<Rightarrow> Returned (Some (rotLosses (train_frame T (nat (numTrainIters_of T))),
                                      transLosses (train_frame T (nat (numTrainIters_of T))),
                                      totalLosses (train_frame T (nat (numTrainIters_of T))))))"
  using assms
  by (auto simp: train_def train_frame_def train_error_def Let_def split: prod.splits option.splits)

lemma train_guard:
  assumes "curEpoch T \<ge> maxEpochs T"
  shows "train T = (T, [Pre ModelTrain], Returned None)"
  using assms by (simp add: train_def)

lemma train_returned_Some:
  assumes "snd (snd (train T)) = Returned (Some r)"
  shows "curEpoch T < maxEpochs T" and "train_error T (nat (numTrainIters_of T)) = None"
proof -
  show lt: "curEpoch T < maxEpochs T"
    using assms train_guard [of T] by (cases "curEpoch T < maxEpochs T") auto
  show "train_error T (nat (numTrainIters_of T)) = None"
    using assms train_unfold(3) [OF lt] by (auto split: option.splits)
qed

section \<open>The optimizer steps and the recurrent state in \<open>train\<close>\<close>





section \<open>The constructor and the return value of \<open>train\<close>\<close>

text \<open>
  C7, as the code has it. When the epoch counter has reached the maximum, \<open>train\<close> calls
  \<open>model.train()\<close> and returns \<open>None\<close>: no other call is made and the trainer, with its
  three running sums and its iteration counter, is unchanged. Otherwise a call that
  returns, returns the three logs, which hold for each sample of the epoch its scaled
  rotation loss, its translation loss and their sum.
\<close>

theorem train_return_value:
  "(curEpoch T \<ge> maxEpochs T \<longrightarrow> train T = (T, [Pre ModelTrain], Returned None)) \<and>
   (curEpoch T < maxEpochs T \<and> snd (snd (train T)) = Returned v \<longrightarrow>
      v = Some (map (\<lambda>j. scaleFactor T * sample_rot T (train_set T) j)
                  [0..<nat (numTrainIters_of T)],
                map (\<lambda>j. sample_trans T (train_set T) j) [0..<nat (numTrainIters_of T)],
                map (\<lambda>j. scaleFactor T * sample_rot T (train_set T) j
                          + sample_trans T (train_set T) j) [0..<nat (numTrainIters_of T)]))"
proof (intro conjI impI)
  assume "maxEpochs T \<le> curEpoch T"
  then show "train T = (T, [Pre ModelTrain], Returned None)" by (rule train_guard)
next
  assume h: "curEpoch T < maxEpochs T \<and> snd (snd (train T)) = Returned v"
  then have lt: "curEpoch T < maxEpochs T" and ret: "snd (snd (train T)) = Returned v"
    by simp_all
  have ok: "train_error T (nat (numTrainIters_of T)) = None"
    using ret train_unfold(3) [OF lt] by (auto split: option.splits)
  show "v = Some (map (\<lambda>j. scaleFactor T * sample_rot T (train_set T) j)
                  [0..<nat (numTrainIters_of T)],
                map (\<lambda>j. sample_trans T (train_set T) j) [0..<nat (numTrainIters_of T)],
                map (\<lambda>j. scaleFactor T * sample_rot T (train_set T) j
                          + sample_trans T (train_set T) j) [0..<nat (numTrainIters_of T)])"
    using ret train_unfold(3) [OF lt] ok train_frame_logs [OF ok] by simp
qed

theorem train_return_value_witness:
  "maxEpochs (demo_trainer 3 10) \<le> curEpoch (demo_trainer 3 10) \<and>
   train (demo_trainer 3 10) = (demo_trainer 3 10, [Pre ModelTrain], Returned None) \<and>
   curEpoch (demo_trainer 3 0) < maxEpochs (demo_trainer 3 0) \<and>
   snd (snd (train (demo_trainer 3 0))) =
     Returned (Some ([2, 2, 2, 2, 2], [4, 4, 4, 4, 4], [6, 6, 6, 6, 6])) \<and>
   map (\<lambda>j. scaleFactor (demo_trainer 3 0)
               * sample_rot (demo_trainer 3 0) (train_set (demo_trainer 3 0)) j)
     [0..<nat (numTrainIters_of (demo_trainer 3 0))] = [2, 2, 2, 2, 2]"
proof -
  have g: "maxEpochs (demo_trainer 3 10) \<le> curEpoch (demo_trainer 3 10)" by code_simp
  have l: "curEpoch (demo_trainer 3 0) < maxEpochs (demo_trainer 3 0)" by code_simp
  have r: "snd (snd (train (demo_trainer 3 0))) =
     Returned (Some ([2, 2, 2, 2, 2], [4, 4, 4, 4, 4], [6, 6, 6, 6, 6]))"
    by code_simp
  from train_return_value [of "demo_trainer 3 10"] g
  have a: "train (demo_trainer 3 10) = (demo_trainer 3 10, [Pre ModelTrain], Returned None)"
    by blast
  from train_return_value [of "demo_trainer 3 0"
      "Some ([2, 2, 2, 2, 2], [4, 4, 4, 4, 4], [6, 6, 6, 6, 6])"] l r
  have b: "map (\<lambda>j. scaleFactor (demo_trainer 3 0)
               * sample_rot (demo_trainer 3 0) (train_set (demo_trainer 3 0)) j)
     [0..<nat (numTrainIters_of (demo_trainer 3 0))] = [2, 2, 2, 2, 2]"
    by simp
  from g l r a b show ?thesis by simp
qed

text \<open>
  C7 as the specification states it fails: with the epoch counter at the maximum (10 of
  10), \<open>train\<close> returns \<open>None\<close>, not a triple of logs, after calling \<open>model.train()\<close>.
\<close>

theorem train_guard_counterexample:
  "snd (train (demo_trainer 3 10)) = ([Pre ModelTrain], Returned None)"
  by code_simp

lemma elapsed_nonneg: "0 \<le> elapsed w f k"
  by (induction k) auto

text \<open>
  C8, as the code has it. The constructor checks nothing: for every configuration it
  returns a trainer, and its only call is \<open>model.zero_grad()\<close>. The trainer holds
  \<open>args\<close>, the epoch, the model, the two datasets, the optimizer, the scheduler, the scale
  factor and the weight regularizer as given, \<open>args.nepochs\<close> as the maximum number of
  epochs, the sum-reduced squared error as loss function whatever \<open>loss_fn\<close> is passed,
  and zero in the three running sums and in the iteration counter; the parameter
  \<open>gradClip\<close> is not stored. A window size of one or less is accepted, and then every
  sample of an epoch that returns its logs closes a window of its own: there is an
  optimizer step in every iteration.
\<close>

theorem Trainer_init_accepts:
  "Trainer_init a e m ts vs lf opt sch sf gc wr =
     (\<lparr>args = a, maxEpochs = nepochs a, curEpoch = e, model = m, train_set = ts,
       val_set = vs, loss_fn = MSELoss_sum, loss_rot = 0, loss_trans = 0, loss = 0,
       optimizer = opt, scheduler = sch, scaleFactor = sf, weightRegularizer = wr,
       iters = 0\<rparr>,
      [Pre ZeroGrad]) \<and>
   (trainBatch a \<le> 1 \<and>
    snd (snd (train (fst (Trainer_init a e m ts vs lf opt sch sf gc wr)))) = Returned (Some r) \<longrightarrow>
      iterations_of OptimizerStep
        (fst (snd (train (fst (Trainer_init a e m ts vs lf opt sch sf gc wr))))) =
      [0..<nat (numTrainIters_of (fst (Trainer_init a e m ts vs lf opt sch sf gc wr)))])"
proof -
  let ?T = "fst (Trainer_init a e m ts vs lf opt sch sf gc wr)"
  have built: "Trainer_init a e m ts vs lf opt sch sf gc wr =
     (\<lparr>args = a, maxEpochs = nepochs a, curEpoch = e, model = m, train_set = ts,
       val_set = vs, loss_fn = MSELoss_sum, loss_rot = 0, loss_trans = 0, loss = 0,
       optimizer = opt, scheduler = sch, scaleFactor = sf, weightRegularizer = wr,
       iters = 0\<rparr>,
      [Pre ZeroGrad])"
    by (simp add: Trainer_init_def)
  have a: "args ?T = a" by (simp add: Trainer_init_def)
  have steps: "iterations_of OptimizerStep (fst (snd (train ?T))) = [0..<nat (numTrainIters_of ?T)]"
    if small: "trainBatch a \<le> 1" and ret: "snd (snd (train ?T)) = Returned (Some r)"
  proof -
    note ok = train_returned_Some [OF ret]
    have all: "window_closes (trainBatch (args ?T)) (effective_eos ?T) k" for k
      using elapsed_nonneg [of "trainBatch (args ?T)" "effective_eos ?T" k] small a
      by (simp add: window_closes_def)
    have "iterations_of OptimizerStep (fst (snd (train ?T))) =
            filter (window_closes (trainBatch (args ?T)) (effective_eos ?T))
              [0..<nat (numTrainIters_of ?T)]"
      using train_unfold(2) [OF ok(1)] train_frame_steps [OF ok(2)] by simp
    also have "\<dots> = [0..<nat (numTrainIters_of ?T)]"
      using all by simp
    finally show ?thesis .
  qed
  from built steps show ?thesis by blast
qed

theorem Trainer_init_accepts_witness:
  "trainBatch (demo_args 0) \<le> 1 \<and>
   snd (snd (train (fst (Trainer_init (demo_args 0) 0 demo_model
            (map demo_sample [False, False, False, False, True])
            (map demo_sample [False, False]) MSELoss_sum () None 2 None None)))) =
     Returned (Some ([2, 2, 2, 2, 2], [4, 4, 4, 4, 4], [6, 6, 6, 6, 6])) \<and>
   iterations_of OptimizerStep
     (fst (snd (train (fst (Trainer_init (demo_args 0) 0 demo_model
            (map demo_sample [False, False, False, False, True])
            (map demo_sample [False, False]) MSELoss_sum () None 2 None None))))) =
     [0, 1, 2, 3, 4] \<and>
   curEpoch (fst (Trainer_init (demo_args 0) 0 demo_model
            (map demo_sample [False, False, False, False, True])
            (map demo_sample [False, False]) MSELoss_sum () None 2 None None)) = 0 \<and>
   scaleFactor (fst (Trainer_init (demo_args 0) 0 demo_model
            (map demo_sample [False, False, False, False, True])
            (map demo_sample [False, False]) MSELoss_sum () None 2 None None)) = 2"
proof -
  let ?I = "Trainer_init (demo_args 0) 0 demo_model
            (map demo_sample [False, False, False, False, True])
            (map demo_sample [False, False]) MSELoss_sum () (None :: unit option) 2 None None"
  let ?R = "([2, 2, 2, 2, 2], [4, 4, 4, 4, 4], [6, 6, 6, 6, 6]) :: real list \<times> real list \<times> real list"
  note inst = Trainer_init_accepts [where a = "demo_args 0" and e = 0 and m = demo_model
      and ts = "map demo_sample [False, False, False, False, True]"
      and vs = "map demo_sample [False, False]" and lf = MSELoss_sum and opt = "()"
      and sch = "None :: unit option" and sf = 2 and gc = None and wr = None and r = ?R]
  have s: "trainBatch (demo_args 0) \<le> 1" by code_simp
  have r: "snd (snd (train (fst ?I))) = Returned (Some ?R)" by code_simp
  have n: "[0..<nat (numTrainIters_of (fst ?I))] = [0, 1, 2, 3, 4]" by code_simp
  have st: "iterations_of OptimizerStep (fst (snd (train (fst ?I)))) = [0, 1, 2, 3, 4]"
    using conjunct2 [OF inst] s r n by simp
  have fl: "curEpoch (fst ?I) = 0" "scaleFactor (fst ?I) = 2"
    using conjunct1 [OF inst] by simp_all
  from s r st fl show ?thesis by simp
qed

text \<open>
  C8 as the specification states it fails: the constructor accepts the window size 0,
  and the epoch that follows runs to its end, with an optimizer step after each of the
  five samples.
\<close>

theorem zero_window_counterexample:
  "trainBatch (args (fst (Trainer_init (demo_args 0) 0 demo_model
            (map demo_sample [False, False, False, False, True])
            (map demo_sample [False, False]) MSELoss_sum () None 2 None None))) = 0 \<and>
   snd (train (fst (Trainer_init (demo_args 0) 0 demo_model
            (map demo_sample [False, False, False, False, True])
            (map demo_sample [False, False]) MSELoss_sum () None 2 None None))) =
     ([Pre ModelTrain,
       At 0 Forward, At 0 (Write_RotTrans 2 4), At 0 (Write_Total 6), At 0 (Backward 6),
       At 0 OptimizerStep, At 0 DetachHidden, At 0 ZeroGrad,
       At 1 Forward, At 1 (Write_RotTrans 2 4), At 1 (Write_Total 6), At 1 (Backward 6),
       At 1 OptimizerStep, At 1 DetachHidden, At 1 ZeroGrad,
       At 2 Forward, At 2 (Write_RotTrans 2 4), At 2 (Write_Total 6), At 2 (Backward 6),
       At 2 OptimizerStep, At 2 DetachHidden, At 2 ZeroGrad,
       At 3 Forward, At 3 (Write_RotTrans 2 4), At 3 (Write_Total 6), At 3 (Backward 6),
       At 3 OptimizerStep, At 3 DetachHidden, At 3 ZeroGrad,
       At 4 Forward, At 4 (Write_RotTrans 2 4), At 4 (Write_Total 6), At 4 (Backward 6),
       At 4 OptimizerStep, At 4 DetachHidden, At 4 ZeroGrad, At 4 ResetHidden],
      Returned (Some ([2, 2, 2, 2, 2], [4, 4, 4, 4, 4], [6, 6, 6, 6, 6])))"
  by code_simp

text \<open>
  C10. The constructor does not store its \<open>loss_fn\<close> argument: the loss function of the
  trainer is the sum-reduced squared error whatever is passed, so two constructions that
  differ in that argument alone give the same trainer and the same calls, and \<open>train\<close>
  and \<open>validate\<close> on them give the same trainer afterwards, the same calls and the same
  outcome.
\<close>

theorem loss_fn_argument_ignored:
  "loss_fn (fst (Trainer_init a e m ts vs lf1 opt sch sf gc wr)) = MSELoss_sum \<and>
   Trainer_init a e m ts vs lf1 opt sch sf gc wr = Trainer_init a e m ts vs lf2 opt sch sf gc wr \<and>
   train (fst (Trainer_init a e m ts vs lf1 opt sch sf gc wr)) =
     train (fst (Trainer_init a e m ts vs lf2 opt sch sf gc wr)) \<and>
   validate (fst (Trainer_init a e m ts vs lf1 opt sch sf gc wr)) =
     validate (fst (Trainer_init a e m ts vs lf2 opt sch sf gc wr))"
  by (simp add: Trainer_init_def)

section \<open>The loop of \<open>validate\<close>\<close>


lemma validate_body_ok:
  assumes "validate_body i st = (st', None)"
  shows "i < length (val_set (self st))"
  using assms by (auto simp: validate_body_def getitem_def split: if_splits)


















section \<open>The running sums of \<open>train\<close>, window by window\<close>




lemma train_accumulate_sums:
  "loss_rot (self (train_accumulate i (ds ! i) st)) =
     loss_rot (self st) + scaleFactor (self st) * sample_rot (self st) ds i"
  "loss_trans (self (train_accumulate i (ds ! i) st)) =
     loss_trans (self st) + sample_trans (self st) ds i"
  "loss (self (train_accumulate i (ds ! i) st)) =
     loss (self st) + (scaleFactor (self st) * sample_rot (self st) ds i + sample_trans (self st) ds i)"
  by (simp_all add: train_accumulate_def sample_rot_def sample_trans_def Let_def split: prod.splits)




lemma sum_list_upt_Suc:
  "a \<le> k \<Longrightarrow> sum_list (map v [a..<Suc k]) = sum_list (map v [a..<k]) + v k"
  by simp

lemma sum_list_scale: "sum_list (map (\<lambda>j. c * f j) xs) = (c::real) * sum_list (map f xs)"
  by (induction xs) (simp_all add: distrib_left)


lemma running_sum_close:
  "a = running_sum cl e v k \<Longrightarrow>
   a + v k = (if window_start cl k = 0 then e else 0)
               + sum_list (map v [window_start cl k..<Suc k])"
  using window_start_le [of cl k] by (simp add: running_sum_def)

text \<open>
  C4, as the code has it. In an epoch that returns its logs, when sample \<open>k\<close> closes a
  window, the rotation sum at the window test is \<open>scaleFactor\<close> times the sum of the
  rotation losses of the samples of the window, and the translation sum is the sum of their
  translation losses, each on top of the value the sum had when \<open>train\<close> was entered if
  the window is the first of the call; and when the next iteration begins the three sums
  are zero.
\<close>

theorem train_window_sums:
  assumes "snd (snd (train T)) = Returned (Some r)"
    and "k < nat (numTrainIters_of T)"
    and "window_closes (trainBatch (args T)) (effective_eos T) k"
  shows "loss_rot (self (train_at_test T k)) =
           (if window_start (window_closes (trainBatch (args T)) (effective_eos T)) k = 0
            then loss_rot T else 0)
           + scaleFactor T * sum_list (map (sample_rot T (train_set T))
               [window_start (window_closes (trainBatch (args T)) (effective_eos T)) k..<Suc k]) \<and>
         loss_trans (self (train_at_test T k)) =
           (if window_start (window_closes (trainBatch (args T)) (effective_eos T)) k = 0
            then loss_trans T else 0)
           + sum_list (map (sample_trans T (train_set T))
               [window_start (window_closes (trainBatch (args T)) (effective_eos T)) k..<Suc k]) \<and>
         loss_rot (self (train_frame T (Suc k))) = 0 \<and>
         loss_trans (self (train_frame T (Suc k))) = 0 \<and>
         loss (self (train_frame T (Suc k))) = 0"
proof -
  let ?cl = "window_closes (trainBatch (args T)) (effective_eos T)"
  have full: "train_error T (nat (numTrainIters_of T)) = None"
    using train_returned_Some(2) [OF assms(1)] .
  have ok': "train_error T (Suc k) = None"
    using train_prefix_le [OF full] assms(2) by simp
  note st = train_prefix_step [OF ok']
  note fl = train_frame_fields [OF st(1)]
  have rot: "loss_rot (self (train_at_test T k)) =
      loss_rot (self (train_frame T k)) + scaleFactor T * sample_rot T (train_set T) k"
    unfolding train_at_test_def
    using train_accumulate_sums(1) [of k "train_set T" "train_frame T k"] fl
      sample_rot_frame [OF st(1)]
    by simp
  have "loss_rot (self (train_at_test T k)) =
      (if window_start ?cl k = 0 then loss_rot T else 0)
        + sum_list (map (\<lambda>j. scaleFactor T * sample_rot T (train_set T) j)
            [window_start ?cl k..<Suc k])"
    unfolding rot by (rule running_sum_close) (rule train_frame_sums(1) [OF st(1)])
  then have c1: "loss_rot (self (train_at_test T k)) =
      (if window_start ?cl k = 0 then loss_rot T else 0)
        + scaleFactor T * sum_list (map (sample_rot T (train_set T))
            [window_start ?cl k..<Suc k])"
    by (simp only: sum_list_scale)
  have trans: "loss_trans (self (train_at_test T k)) =
      loss_trans (self (train_frame T k)) + sample_trans T (train_set T) k"
    unfolding train_at_test_def
    using train_accumulate_sums(2) [of k "train_set T" "train_frame T k"] fl
      sample_rot_frame [OF st(1)]
    by simp
  have c2: "loss_trans (self (train_at_test T k)) =
      (if window_start ?cl k = 0 then loss_trans T else 0)
        + sum_list (map (sample_trans T (train_set T)) [window_start ?cl k..<Suc k])"
    unfolding trans by (rule running_sum_close) (rule train_frame_sums(2) [OF st(1)])
  have c3: "loss_rot (self (train_frame T (Suc k))) = 0"
    "loss_trans (self (train_frame T (Suc k))) = 0"
    "loss (self (train_frame T (Suc k))) = 0"
    using train_frame_sums [OF ok'] assms(3) by (simp_all add: running_sum_Suc)
  from c1 c2 c3 show ?thesis by simp
qed

theorem train_window_sums_witness:
  "snd (snd (train (fst (validate (demo_trainer 3 0))))) =
     Returned (Some ([2, 2, 2, 2, 2], [4, 4, 4, 4, 4], [6, 6, 6, 6, 6])) \<and>
   (2::nat) < nat (numTrainIters_of (fst (validate (demo_trainer 3 0)))) \<and>
   window_closes (trainBatch (args (fst (validate (demo_trainer 3 0)))))
     (effective_eos (fst (validate (demo_trainer 3 0)))) 2 \<and>
   loss_rot (fst (validate (demo_trainer 3 0))) = 4 \<and>
   loss_rot (self (train_at_test (fst (validate (demo_trainer 3 0))) 2)) = 4 + 2 * 3 \<and>
   loss_trans (self (train_at_test (fst (validate (demo_trainer 3 0))) 2)) = 8 + 12 \<and>
   loss_rot (self (train_frame (fst (validate (demo_trainer 3 0))) (Suc 2))) = 0 \<and>
   loss_trans (self (train_frame (fst (validate (demo_trainer 3 0))) (Suc 2))) = 0 \<and>
   loss (self (train_frame (fst (validate (demo_trainer 3 0))) (Suc 2))) = 0"
proof -
  let ?T = "fst (validate (demo_trainer 3 0))"
  let ?cl = "window_closes (trainBatch (args ?T)) (effective_eos ?T)"
  have r: "snd (snd (train ?T)) =
     Returned (Some ([2, 2, 2, 2, 2], [4, 4, 4, 4, 4], [6, 6, 6, 6, 6]))" by code_simp
  have n: "(2::nat) < nat (numTrainIters_of ?T)" by code_simp
  have c: "?cl 2" by code_simp
  have v: "window_start ?cl 2 = 0" "loss_rot ?T = 4" "loss_trans ?T = 8" "scaleFactor ?T = 2"
    "sum_list (map (sample_rot ?T (train_set ?T)) [0..<Suc 2]) = 3"
    "sum_list (map (sample_trans ?T (train_set ?T)) [0..<Suc 2]) = 12"
    by code_simp+
  from train_window_sums [OF r n c] v r n c show ?thesis by simp
qed

text \<open>
  C4 as the specification states it fails for the first window of a call: after a
  validation epoch whose last samples end no sequence, the rotation sum of the first
  training window is 10 at its window test, not \<open>scaleFactor\<close> times the rotation losses of
  its three samples, which is 6, and the loss backpropagated is 30, not 18.
\<close>

theorem first_window_counterexample:
  "window_closes (trainBatch (args (fst (validate (demo_trainer 3 0)))))
     (effective_eos (fst (validate (demo_trainer 3 0)))) 2 \<and>
   window_start (window_closes (trainBatch (args (fst (validate (demo_trainer 3 0)))))
     (effective_eos (fst (validate (demo_trainer 3 0))))) 2 = 0 \<and>
   loss_rot (self (train_at_test (fst (validate (demo_trainer 3 0))) 2)) = 10 \<and>
   scaleFactor (fst (validate (demo_trainer 3 0)))
     * sum_list (map (sample_rot (fst (validate (demo_trainer 3 0)))
                        (train_set (fst (validate (demo_trainer 3 0))))) [0..<Suc 2]) = 6 \<and>
   iterations_of (Backward 30) (fst (snd (train (fst (validate (demo_trainer 3 0)))))) = [2]"
  by code_simp

section \<open>What the running sums carry from one call to the next\<close>


lemma zero_sums_update [simp]:
  "zero_sums (T\<lparr>loss_rot := a, loss_trans := b, loss := c\<rparr>) = zero_sums T"
  by (simp add: zero_sums_def)








lemma reports_append [simp]: "reports (es @ fs) = reports es @ reports fs"
  by (simp add: reports_def)











end
